theory Spec2Isabelle
  imports Main "HOL-Library.Word" "HOL-Library.Sublist"
begin

unbundle bit_operations_syntax

section \<open>Errors and outcomes\<close>

text \<open>
  A Go \<^verbatim>\<open>error\<close> is an interface value; \<^verbatim>\<open>nil\<close> is \<open>None\<close> of \<open>error option\<close>.
  \<^verbatim>\<open>fmt.Errorf("msg: %w", err)\<close> is \<open>Errorf msg err\<close>, \<^verbatim>\<open>errors.Join(errs...)\<close> on a
  non-empty slice is \<open>JoinError errs\<close>. \<open>Errno\<close> is an error number answered by the
  kernel to a netlink request.
\<close>

datatype errno = ESRCH | ENOENT | EEXIST | EPERM | EOPNOTSUPP

datatype error =
    Errno errno
  | LinkNotFoundError string
  | NotAVrfError string
  | OtherError string
  | Errorf string error
  | JoinError "error list"

text \<open>A call either returns or panics (a method call on a nil interface value).\<close>

datatype 'a outcome = Returns 'a | Panics

section \<open>Remote client (api/remote/remote.go)\<close>

type_synonym payload = string

record ClientOptions =
  Servers :: "string list"
  OptClientID :: string
  OptUsername :: string
  OptPassword :: string
  CleanSession :: bool

text \<open>\<^verbatim>\<open>mqtt.NewClientOptions()\<close>: no broker, empty identity, clean session.\<close>

definition NewClientOptions :: ClientOptions where
  "NewClientOptions =
     \<lparr>Servers = [], OptClientID = [], OptUsername = [], OptPassword = [], CleanSession = True\<rparr>"

text \<open>\<^verbatim>\<open>mqtt.NewClient(opts)\<close>: the client handle built from the options.\<close>

datatype mqtt_client = NewClient ClientOptions

text \<open>
  The struct \<^verbatim>\<open>Remote\<close>. \<open>QoS\<close> is a Go \<^verbatim>\<open>byte\<close>. The unexported field \<open>client\<close> is an
  interface value: \<open>None\<close> is the nil interface. The callback field \<^verbatim>\<open>ReceiveHandler\<close> is
  only invoked from the subscription's message callback and is not part of the record.
\<close>

record Remote =
  URL :: string
  ClientID :: string
  Username :: string
  Password :: string
  QoS :: "8 word"
  TopicRX :: string
  TopicTX :: string
  client :: "mqtt_client option"

text \<open>The option block of \<^verbatim>\<open>Remote.Run\<close> (remote.go lines 27-38).\<close>

definition Run_options :: "Remote \<Rightarrow> ClientOptions" where
  "Run_options rm =
     (let opts = NewClientOptions\<lparr>Servers := [URL rm]\<rparr>;
          opts = (if ClientID rm \<noteq> [] then opts\<lparr>OptClientID := ClientID rm\<rparr> else opts);
          opts = (if Username rm \<noteq> [] then opts\<lparr>OptUsername := Username rm\<rparr> else opts);
          opts = (if Password rm \<noteq> [] then opts\<lparr>OptPassword := Password rm\<rparr> else opts)
      in opts\<lparr>CleanSession := (ClientID rm = [] \<or> QoS rm = 0)\<rparr>)"

text \<open>\<^verbatim>\<open>r.client = mqtt.NewClient(opts)\<close> (remote.go line 59).\<close>

definition Run_store_client :: "Remote \<Rightarrow> Remote" where
  "Run_store_client rm = rm\<lparr>client := Some (NewClient (Run_options rm))\<rparr>"

section \<open>Addresses, links, routes and neighbours\<close>

text \<open>\<^verbatim>\<open>net.IP\<close> and \<^verbatim>\<open>net.IPNet\<close>: an address of either family and a mask length.\<close>

datatype ip = IPv4 "32 word" | IPv6 "128 word"

record IPNet =
  IP :: ip
  Ones :: nat

definition ip_bits :: "ip \<Rightarrow> nat" where
  "ip_bits a = (case a of IPv4 _ \<Rightarrow> 32 | IPv6 _ \<Rightarrow> 128)"

text \<open>\<^verbatim>\<open>netlink.NewIPNet(ip)\<close>: the address with a full-length mask.\<close>

definition NewIPNet :: "ip \<Rightarrow> IPNet" where
  "NewIPNet a = \<lparr>IP = a, Ones = ip_bits a\<rparr>"

text \<open>
  Modelled from the spec: \<^verbatim>\<open>util.IsHost\<close> of the shared helper library is not among the
  sources. The spec calls a prefix a host prefix when its host-bit count is zero
  (IPv4 /32 or IPv6 /128).
\<close>

definition IsHost :: "IPNet \<Rightarrow> bool" where
  "IsHost n = (Ones n = ip_bits (IP n))"

text \<open>
  A link as \<^verbatim>\<open>netlink.LinkByName\<close> returns it: its index and, for a VRF device, the
  routing table the device is bound to.
\<close>

record Link =
  Index :: nat
  VrfTable :: "32 word option"

datatype seg6local_action = SEG6_LOCAL_ACTION_END_DT46

datatype encap =
    SEG6LocalEncap "seg6local_action option" bool bool nat
  | SEG6Encap nat "ip list"

text \<open>\<^verbatim>\<open>nl.SEG6_IPTUN_MODE_ENCAP\<close>.\<close>

definition SEG6_IPTUN_MODE_ENCAP :: nat where
  "SEG6_IPTUN_MODE_ENCAP = 1"

text \<open>\<^verbatim>\<open>netlink.Route\<close>, with the fields the agent sets; \<open>Table = 0\<close> is the unset field.\<close>

record Route =
  Dst :: IPNet
  Table :: nat
  LinkIndex :: nat
  Encap :: "encap option"

datatype neigh_state = NUD_PERMANENT
datatype neigh_flag = NTF_PROXY

record Neigh =
  NeighLinkIndex :: nat
  NeighIP :: ip
  State :: neigh_state
  Flags :: neigh_flag

datatype nl_call =
    CallRouteReplace Route
  | CallRouteDel Route
  | CallNeighAdd Neigh
  | CallNeighDel Neigh

section \<open>The host the agent runs on\<close>

text \<open>
  The state the agent acts on: the kernel's links, routes and neighbour entries, the
  package-level variable \<^verbatim>\<open>r\<close> of main.go, and the sequence of requests handed to the
  kernel and to the broker client so far, and the lines logged. \<open>refuse\<close> is the kernel's answer to a request
  it rejects for a reason of its own (permission, missing feature); such a request
  changes nothing.
\<close>

datatype event =
    Netlink nl_call
  | MqttPublish string "8 word" bool payload
  | MqttSubscribe string "8 word"
  | MqttDisconnect nat
  | MqttConnect

text \<open>A line written by \<^verbatim>\<open>log.Printf\<close>: its text, and the error it formats, if any.\<close>

datatype log_entry = LogText string | LogError string "error option"

record world =
  links :: "(string \<times> Link) list"
  routes :: "Route list"
  neighs :: "Neigh list"
  refuse :: "nl_call \<Rightarrow> errno option"
  var_r :: Remote
  trace :: "event list"
  logged :: "log_entry list"

definition emit :: "event \<Rightarrow> world \<Rightarrow> world" where
  "emit e w = w\<lparr>trace := trace w @ [e]\<rparr>"

definition log_Printf :: "log_entry \<Rightarrow> world \<Rightarrow> world" where
  "log_Printf e w = w\<lparr>logged := logged w @ [e]\<rparr>"

subsection \<open>The netlink requests\<close>

text \<open>
  The requests of the netlink binding, which is not part of the repository, with the
  answers of the kernel's rtnetlink interface: a replace request overwrites the route
  with the same destination and table; removing a route that is not there is answered
  with \<open>ESRCH\<close>, removing a neighbour entry that is not there with \<open>ENOENT\<close>, adding a
  neighbour entry that is there with \<open>EEXIST\<close>.
\<close>

definition LinkByName :: "string \<Rightarrow> world \<Rightarrow> error + Link" where
  "LinkByName name w =
     (case map_of (links w) name of
        None \<Rightarrow> Inl (LinkNotFoundError name)
      | Some lk \<Rightarrow> Inr lk)"

definition same_destination :: "Route \<Rightarrow> Route \<Rightarrow> bool" where
  "same_destination a b = (Dst a = Dst b \<and> Table a = Table b)"

definition route_matches :: "Route \<Rightarrow> Route \<Rightarrow> bool" where
  "route_matches rt x = (Dst x = Dst rt \<and> Table x = Table rt \<and> LinkIndex x = LinkIndex rt)"

definition neigh_matches :: "Neigh \<Rightarrow> Neigh \<Rightarrow> bool" where
  "neigh_matches n x = (NeighLinkIndex x = NeighLinkIndex n \<and> NeighIP x = NeighIP n)"

definition RouteReplace :: "Route \<Rightarrow> world \<Rightarrow> error option \<times> world" where
  "RouteReplace rt w =
     (let w1 = emit (Netlink (CallRouteReplace rt)) w in
      case refuse w (CallRouteReplace rt) of
        Some e \<Rightarrow> (Some (Errno e), w1)
      | None \<Rightarrow> (None, w1\<lparr>routes := rt # filter (\<lambda>x. \<not> same_destination rt x) (routes w)\<rparr>))"

definition RouteDel :: "Route \<Rightarrow> world \<Rightarrow> error option \<times> world" where
  "RouteDel rt w =
     (let w1 = emit (Netlink (CallRouteDel rt)) w in
      case refuse w (CallRouteDel rt) of
        Some e \<Rightarrow> (Some (Errno e), w1)
      | None \<Rightarrow>
          if list_ex (route_matches rt) (routes w)
          then (None, w1\<lparr>routes := filter (\<lambda>x. \<not> route_matches rt x) (routes w)\<rparr>)
          else (Some (Errno ESRCH), w1))"

definition NeighAdd :: "Neigh \<Rightarrow> world \<Rightarrow> error option \<times> world" where
  "NeighAdd n w =
     (let w1 = emit (Netlink (CallNeighAdd n)) w in
      case refuse w (CallNeighAdd n) of
        Some e \<Rightarrow> (Some (Errno e), w1)
      | None \<Rightarrow>
          if list_ex (neigh_matches n) (neighs w)
          then (Some (Errno EEXIST), w1)
          else (None, w1\<lparr>neighs := n # neighs w\<rparr>))"

definition NeighDel :: "Neigh \<Rightarrow> world \<Rightarrow> error option \<times> world" where
  "NeighDel n w =
     (let w1 = emit (Netlink (CallNeighDel n)) w in
      case refuse w (CallNeighDel n) of
        Some e \<Rightarrow> (Some (Errno e), w1)
      | None \<Rightarrow>
          if list_ex (neigh_matches n) (neighs w)
          then (None, w1\<lparr>neighs := filter (\<lambda>x. \<not> neigh_matches n x) (neighs w)\<rparr>)
          else (Some (Errno ENOENT), w1))"

subsection \<open>The shared helper library\<close>

text \<open>
  The helpers of the shared library the agent calls are not among the sources; the
  kernel programmer takes them as a parameter, so every statement about it holds for
  any implementation of them.
\<close>

datatype envelope =
    Register string string
  | Deregister string string

record helpers =
  ParseIP :: "string \<Rightarrow> error + ip"
  ParseIPNet :: "string \<Rightarrow> error + IPNet"
  ParseSegments :: "string list \<Rightarrow> error + ip list"
  DecodeEndpoint :: "ip \<Rightarrow> error + string \<times> string"
  HexToBase62 :: "string \<Rightarrow> error + string"
  GenerateInterfaceNameHost :: "string \<Rightarrow> string \<Rightarrow> string"
  GenerateInterfaceNameVRF :: "string \<Rightarrow> string \<Rightarrow> string"
  EncodeEndpoint :: "string \<Rightarrow> string \<Rightarrow> string \<Rightarrow> error + string"
  Marshal :: "envelope \<Rightarrow> error + payload"

text \<open>
  Modelled from the spec: \<^verbatim>\<open>vrf.GetVRFIdForVPC\<close> of the shared helper library is not
  among the sources. The spec obtains the VRF identifier by looking up the VRF device
  whose name is derived from the pair and reading the table from its link attributes.
\<close>

definition GetVRFIdForVPC :: "helpers \<Rightarrow> string \<Rightarrow> string \<Rightarrow> world \<Rightarrow> error + 32 word" where
  "GetVRFIdForVPC h vpc vpcAttachment w =
     (let name = GenerateInterfaceNameVRF h vpc vpcAttachment in
      case LinkByName name w of
        Inl e \<Rightarrow> Inl e
      | Inr lk \<Rightarrow> (case VrfTable lk of None \<Rightarrow> Inl (NotAVrfError name) | Some t \<Rightarrow> Inr t))"

section \<open>Kernel programmer\<close>

subsection \<open>Package neighborproxy\<close>

definition neighborproxy_Add :: "helpers \<Rightarrow> IPNet \<Rightarrow> string \<Rightarrow> string \<Rightarrow> world \<Rightarrow> error option \<times> world" where
  "neighborproxy_Add h ipnet vpc vpcAttachment w =
     (let dev = GenerateInterfaceNameHost h vpc vpcAttachment in
      case LinkByName dev w of
        Inl e \<Rightarrow> (Some e, w)
      | Inr lk \<Rightarrow>
          NeighAdd \<lparr>NeighLinkIndex = Index lk, NeighIP = IP ipnet,
                    State = NUD_PERMANENT, Flags = NTF_PROXY\<rparr> w)"

definition neighborproxy_Delete :: "helpers \<Rightarrow> IPNet \<Rightarrow> string \<Rightarrow> string \<Rightarrow> world \<Rightarrow> error option \<times> world" where
  "neighborproxy_Delete h ipnet vpc vpcAttachment w =
     (let dev = GenerateInterfaceNameHost h vpc vpcAttachment in
      case LinkByName dev w of
        Inl e \<Rightarrow> (Some e, w)
      | Inr lk \<Rightarrow>
          NeighDel \<lparr>NeighLinkIndex = Index lk, NeighIP = IP ipnet,
                    State = NUD_PERMANENT, Flags = NTF_PROXY\<rparr> w)"

subsection \<open>Package routeingress\<close>

definition routeingress_Add :: "helpers \<Rightarrow> IPNet \<Rightarrow> string \<Rightarrow> string \<Rightarrow> world \<Rightarrow> error option \<times> world" where
  "routeingress_Add h ipn vpc vpcAttachment w =
     (let dev = GenerateInterfaceNameHost h vpc vpcAttachment in
      case LinkByName dev w of
        Inl e \<Rightarrow> (Some e, w)
      | Inr lk \<Rightarrow>
         (case GetVRFIdForVPC h vpc vpcAttachment w of
            Inl e \<Rightarrow> (Some e, w)
          | Inr vrfId \<Rightarrow>
              RouteReplace
                \<lparr>Dst = ipn, Table = 0, LinkIndex = Index lk,
                 Encap = Some (SEG6LocalEncap (Some SEG6_LOCAL_ACTION_END_DT46) True True (unat vrfId))\<rparr> w))"

definition routeingress_Delete :: "helpers \<Rightarrow> IPNet \<Rightarrow> string \<Rightarrow> string \<Rightarrow> world \<Rightarrow> error option \<times> world" where
  "routeingress_Delete h ipn vpc vpcAttachment w =
     (let dev = GenerateInterfaceNameHost h vpc vpcAttachment in
      case LinkByName dev w of
        Inl e \<Rightarrow> (Some e, w)
      | Inr lk \<Rightarrow>
          RouteDel \<lparr>Dst = ipn, Table = 0, LinkIndex = Index lk,
                    Encap = Some (SEG6LocalEncap None False False 0)\<rparr> w)"

subsection \<open>Package routeegress\<close>

definition LoopbackDevice :: string where
  "LoopbackDevice = ''lo-galactic''"

definition routeegress_Add :: "helpers \<Rightarrow> string \<Rightarrow> string \<Rightarrow> IPNet \<Rightarrow> ip list \<Rightarrow> world \<Rightarrow> error option \<times> world" where
  "routeegress_Add h vpc vpcAttachment pfx segments w =
     (case LinkByName LoopbackDevice w of
        Inl e \<Rightarrow> (Some e, w)
      | Inr lk \<Rightarrow>
         (case GetVRFIdForVPC h vpc vpcAttachment w of
            Inl e \<Rightarrow> (Some e, w)
          | Inr vrfId \<Rightarrow>
              RouteReplace
                \<lparr>Dst = pfx, Table = unat vrfId, LinkIndex = Index lk,
                 Encap = Some (SEG6Encap SEG6_IPTUN_MODE_ENCAP segments)\<rparr> w))"

definition routeegress_Delete :: "helpers \<Rightarrow> string \<Rightarrow> string \<Rightarrow> IPNet \<Rightarrow> ip list \<Rightarrow> world \<Rightarrow> error option \<times> world" where
  "routeegress_Delete h vpc vpcAttachment pfx segments w =
     (case LinkByName LoopbackDevice w of
        Inl e \<Rightarrow> (Some e, w)
      | Inr lk \<Rightarrow>
         (case GetVRFIdForVPC h vpc vpcAttachment w of
            Inl e \<Rightarrow> (Some e, w)
          | Inr vrfId \<Rightarrow>
              RouteDel \<lparr>Dst = pfx, Table = unat vrfId, LinkIndex = Index lk, Encap = None\<rparr> w))"


subsection \<open>Package srv6\<close>

definition RouteIngressAdd :: "helpers \<Rightarrow> string \<Rightarrow> world \<Rightarrow> error option \<times> world" where
  "RouteIngressAdd h ipStr w =
     (case ParseIP h ipStr of
        Inl e \<Rightarrow> (Some (Errorf ''invalid ip'' e), w)
      | Inr a \<Rightarrow>
     (case DecodeEndpoint h a of
        Inl e \<Rightarrow> (Some (Errorf ''could not extract SRv6 endpoint'' e), w)
      | Inr (vpcHex, attHex) \<Rightarrow>
     (case HexToBase62 h vpcHex of
        Inl e \<Rightarrow> (Some (Errorf ''invalid vpc'' e), w)
      | Inr vpc \<Rightarrow>
     (case HexToBase62 h attHex of
        Inl e \<Rightarrow> (Some (Errorf ''invalid vpcattachment'' e), w)
      | Inr vpcAttachment \<Rightarrow>
     (case routeingress_Add h (NewIPNet a) vpc vpcAttachment w of
        (Some e, w') \<Rightarrow> (Some (Errorf ''routeingress add failed'' e), w')
      | (None, w') \<Rightarrow> (None, w'))))))"

definition RouteIngressDel :: "helpers \<Rightarrow> string \<Rightarrow> world \<Rightarrow> error option \<times> world" where
  "RouteIngressDel h ipStr w =
     (case ParseIP h ipStr of
        Inl e \<Rightarrow> (Some (Errorf ''invalid ip'' e), w)
      | Inr a \<Rightarrow>
     (case DecodeEndpoint h a of
        Inl e \<Rightarrow> (Some (Errorf ''could not extract SRv6 endpoint'' e), w)
      | Inr (vpcHex, attHex) \<Rightarrow>
     (case HexToBase62 h vpcHex of
        Inl e \<Rightarrow> (Some (Errorf ''invalid vpc'' e), w)
      | Inr vpc \<Rightarrow>
     (case HexToBase62 h attHex of
        Inl e \<Rightarrow> (Some (Errorf ''invalid vpcattachment'' e), w)
      | Inr vpcAttachment \<Rightarrow>
     (case routeingress_Delete h (NewIPNet a) vpc vpcAttachment w of
        (Some e, w') \<Rightarrow> (Some (Errorf ''routeingress delete failed'' e), w')
      | (None, w') \<Rightarrow> (None, w'))))))"

text \<open>
  The tail of \<^verbatim>\<open>RouteEgressAdd\<close> and \<^verbatim>\<open>RouteEgressDel\<close> (part 002, lines 90-102 and
  132-144): the slice \<^verbatim>\<open>errs\<close> collects the wrapped error of each operation that failed,
  and \<^verbatim>\<open>errors.Join\<close> is returned when the slice is not empty.
\<close>

definition append_failure :: "string \<Rightarrow> error option \<Rightarrow> error list \<Rightarrow> error list" where
  "append_failure msg r errs = (case r of Some e \<Rightarrow> errs @ [Errorf msg e] | None \<Rightarrow> errs)"

definition join_result :: "error list \<Rightarrow> error option" where
  "join_result errs = (if length errs > 0 then Some (JoinError errs) else None)"

definition egress_add_ops :: "helpers \<Rightarrow> IPNet \<Rightarrow> ip list \<Rightarrow> string \<Rightarrow> string \<Rightarrow> world \<Rightarrow> error option \<times> world" where
  "egress_add_ops h pfx segments vpc vpcAttachment w =
     (let (errs, w1) =
            (if IsHost pfx
             then (case neighborproxy_Add h pfx vpc vpcAttachment w of
                     (r1, w') \<Rightarrow> (append_failure ''neighborproxy add failed'' r1 [], w'))
             else ([], w));
          (errs, w2) =
            (case routeegress_Add h vpc vpcAttachment pfx segments w1 of
               (r2, w') \<Rightarrow> (append_failure ''routeegress add failed'' r2 errs, w'))
      in (join_result errs, w2))"

definition egress_del_ops :: "helpers \<Rightarrow> IPNet \<Rightarrow> ip list \<Rightarrow> string \<Rightarrow> string \<Rightarrow> world \<Rightarrow> error option \<times> world" where
  "egress_del_ops h pfx segments vpc vpcAttachment w =
     (let (errs, w1) =
            (if IsHost pfx
             then (case neighborproxy_Delete h pfx vpc vpcAttachment w of
                     (r1, w') \<Rightarrow> (append_failure ''neighborproxy delete failed'' r1 [], w'))
             else ([], w));
          (errs, w2) =
            (case routeegress_Delete h vpc vpcAttachment pfx segments w1 of
               (r2, w') \<Rightarrow> (append_failure ''routeegress delete failed'' r2 errs, w'))
      in (join_result errs, w2))"

definition RouteEgressAdd :: "helpers \<Rightarrow> string \<Rightarrow> string \<Rightarrow> string list \<Rightarrow> world \<Rightarrow> error option \<times> world" where
  "RouteEgressAdd h prefixStr srcStr segmentsStr w =
     (case ParseIPNet h prefixStr of
        Inl e \<Rightarrow> (Some (Errorf ''invalid prefix'' e), w)
      | Inr pfx \<Rightarrow>
     (case ParseIP h srcStr of
        Inl e \<Rightarrow> (Some (Errorf ''invalid src'' e), w)
      | Inr src \<Rightarrow>
     (case ParseSegments h segmentsStr of
        Inl e \<Rightarrow> (Some (Errorf ''invalid segments'' e), w)
      | Inr segments \<Rightarrow>
     (case DecodeEndpoint h src of
        Inl e \<Rightarrow> (Some (Errorf ''could not extract SRv6 endpoint'' e), w)
      | Inr (vpcHex, attHex) \<Rightarrow>
     (case HexToBase62 h vpcHex of
        Inl e \<Rightarrow> (Some (Errorf ''invalid vpc'' e), w)
      | Inr vpc \<Rightarrow>
     (case HexToBase62 h attHex of
        Inl e \<Rightarrow> (Some (Errorf ''invalid vpcattachment'' e), w)
      | Inr vpcAttachment \<Rightarrow> egress_add_ops h pfx segments vpc vpcAttachment w))))))"

definition RouteEgressDel :: "helpers \<Rightarrow> string \<Rightarrow> string \<Rightarrow> string list \<Rightarrow> world \<Rightarrow> error option \<times> world" where
  "RouteEgressDel h prefixStr srcStr segmentsStr w =
     (case ParseIPNet h prefixStr of
        Inl e \<Rightarrow> (Some (Errorf ''invalid prefix'' e), w)
      | Inr pfx \<Rightarrow>
     (case ParseIP h srcStr of
        Inl e \<Rightarrow> (Some (Errorf ''invalid src'' e), w)
      | Inr src \<Rightarrow>
     (case ParseSegments h segmentsStr of
        Inl e \<Rightarrow> (Some (Errorf ''invalid segments'' e), w)
      | Inr segments \<Rightarrow>
     (case DecodeEndpoint h src of
        Inl e \<Rightarrow> (Some (Errorf ''could not extract SRv6 endpoint'' e), w)
      | Inr (vpcHex, attHex) \<Rightarrow>
     (case HexToBase62 h vpcHex of
        Inl e \<Rightarrow> (Some (Errorf ''invalid vpc'' e), w)
      | Inr vpc \<Rightarrow>
     (case HexToBase62 h attHex of
        Inl e \<Rightarrow> (Some (Errorf ''invalid vpcattachment'' e), w)
      | Inr vpcAttachment \<Rightarrow> egress_del_ops h pfx segments vpc vpcAttachment w))))))"

section \<open>Remote client: connect callback and Send\<close>

text \<open>
  The token of a subscribe request, as the callback reads it: whether
  \<^verbatim>\<open>WaitTimeout(5*time.Second)\<close> saw it complete, and its \<^verbatim>\<open>Error()\<close>.
\<close>

datatype token = Token (WaitTimeout: bool) (Error: "error option")

text \<open>\<^verbatim>\<open>opts.OnConnect\<close> (remote.go lines 40-57), run by the client on every connect.\<close>

definition OnConnect :: "Remote \<Rightarrow> token \<Rightarrow> world \<Rightarrow> world" where
  "OnConnect rm tok w =
     (let w1 = log_Printf (LogText ''MQTT connected'') w;
          w2 = emit (MqttSubscribe (TopicRX rm) (QoS rm)) w1
      in if \<not> WaitTimeout tok \<or> Error tok \<noteq> None
         then log_Printf (LogError ''MQTT subscribe error: %v'' (Error tok)) w2
         else log_Printf (LogText (''MQTT subscribed: '' @ TopicRX rm)) w2)"

text \<open>
  \<^verbatim>\<open>Remote.Send\<close> (remote.go lines 73-76) on the package-level \<^verbatim>\<open>r\<close>: the method call
  \<^verbatim>\<open>r.client.Publish\<close> on a nil interface value panics; otherwise the payload is handed
  to the client and the token awaited.
\<close>

definition Send :: "payload \<Rightarrow> world \<Rightarrow> unit outcome \<times> world" where
  "Send p w =
     (case client (var_r w) of
        None \<Rightarrow> (Panics, w)
      | Some c \<Rightarrow> (Returns (), emit (MqttPublish (TopicTX (var_r w)) (QoS (var_r w)) False p) w))"

section \<open>Local service (api/local/local.go)\<close>

text \<open>
  The generated request and reply messages of \<^verbatim>\<open>Register\<close> and \<^verbatim>\<open>Deregister\<close> have the
  same fields; one record stands for both requests and one for both replies. A method
  of the service returns a pair: the reply pointer (\<open>None\<close> is nil) and the error handed
  to the RPC framework.
\<close>

record Request =
  GetVpc :: string
  GetVpcattachment :: string
  GetNetworks :: "string list"

record Reply =
  Confirmed :: bool

type_synonym handler = "string \<Rightarrow> string \<Rightarrow> string list \<Rightarrow> world \<Rightarrow> error option outcome \<times> world"

record Local =
  SocketPath :: string
  RegisterHandler :: handler
  DeregisterHandler :: handler

definition Local_Register :: "Local \<Rightarrow> Request \<Rightarrow> world \<Rightarrow> (Reply option \<times> error option) outcome \<times> world" where
  "Local_Register l req w =
     (case RegisterHandler l (GetVpc req) (GetVpcattachment req) (GetNetworks req) w of
        (Panics, w') \<Rightarrow> (Panics, w')
      | (Returns (Some err), w') \<Rightarrow> (Returns (None, Some err), w')
      | (Returns None, w') \<Rightarrow> (Returns (Some \<lparr>Confirmed = True\<rparr>, None), w'))"

definition Local_Deregister :: "Local \<Rightarrow> Request \<Rightarrow> world \<Rightarrow> (Reply option \<times> error option) outcome \<times> world" where
  "Local_Deregister l req w =
     (case DeregisterHandler l (GetVpc req) (GetVpcattachment req) (GetNetworks req) w of
        (Panics, w') \<Rightarrow> (Panics, w')
      | (Returns (Some err), w') \<Rightarrow> (Returns (None, Some err), w')
      | (Returns None, w') \<Rightarrow> (Returns (Some \<lparr>Confirmed = True\<rparr>, None), w'))"

section \<open>Agent orchestrator (main.go)\<close>

text \<open>The configuration as \<^verbatim>\<open>viper\<close> answers it.\<close>

record config =
  srv6_net :: string
  socket_path :: string
  mqtt_url :: string
  mqtt_clientid :: string
  mqtt_username :: string
  mqtt_password :: string
  mqtt_qos :: int
  mqtt_topic_receive :: string
  mqtt_topic_send :: string

text \<open>The loops over \<^verbatim>\<open>networks\<close> of the two handlers (main.go lines 74-88 and 99-113).\<close>

fun register_loop :: "helpers \<Rightarrow> string \<Rightarrow> string list \<Rightarrow> world \<Rightarrow> error option outcome \<times> world" where
  "register_loop h srv6_endpoint [] w = (Returns None, w)"
| "register_loop h srv6_endpoint (n # ns) w =
     (let w1 = log_Printf (LogText (''REGISTER: network='' @ n @ '', srv6_endpoint='' @ srv6_endpoint)) w in
      case Marshal h (Register n srv6_endpoint) of
        Inl e \<Rightarrow> (Returns (Some e), w1)
      | Inr p \<Rightarrow>
         (case Send p w1 of
            (Panics, w2) \<Rightarrow> (Panics, w2)
          | (Returns _, w2) \<Rightarrow> register_loop h srv6_endpoint ns w2))"

fun deregister_loop :: "helpers \<Rightarrow> string \<Rightarrow> string list \<Rightarrow> world \<Rightarrow> error option outcome \<times> world" where
  "deregister_loop h srv6_endpoint [] w = (Returns None, w)"
| "deregister_loop h srv6_endpoint (n # ns) w =
     (let w1 = log_Printf (LogText (''DEREGISTER: network='' @ n @ '', srv6_endpoint='' @ srv6_endpoint)) w in
      case Marshal h (Deregister n srv6_endpoint) of
        Inl e \<Rightarrow> (Returns (Some e), w1)
      | Inr p \<Rightarrow>
         (case Send p w1 of
            (Panics, w2) \<Rightarrow> (Panics, w2)
          | (Returns _, w2) \<Rightarrow> deregister_loop h srv6_endpoint ns w2))"

definition main_RegisterHandler :: "helpers \<Rightarrow> config \<Rightarrow> handler" where
  "main_RegisterHandler h cfg vpc vpcAttachment networks w =
     (case EncodeEndpoint h (srv6_net cfg) vpc vpcAttachment of
        Inl e \<Rightarrow> (Returns (Some e), w)
      | Inr srv6_endpoint \<Rightarrow>
         (case RouteIngressAdd h srv6_endpoint w of
            (Some e, w1) \<Rightarrow> (Returns (Some e), w1)
          | (None, w1) \<Rightarrow> register_loop h srv6_endpoint networks w1))"

definition main_DeregisterHandler :: "helpers \<Rightarrow> config \<Rightarrow> handler" where
  "main_DeregisterHandler h cfg vpc vpcAttachment networks w =
     (case EncodeEndpoint h (srv6_net cfg) vpc vpcAttachment of
        Inl e \<Rightarrow> (Returns (Some e), w)
      | Inr srv6_endpoint \<Rightarrow>
         (case RouteIngressDel h srv6_endpoint w of
            (Some e, w1) \<Rightarrow> (Returns (Some e), w1)
          | (None, w1) \<Rightarrow> deregister_loop h srv6_endpoint networks w1))"

text \<open>The values main.go assigns to the package-level \<^verbatim>\<open>l\<close> and \<^verbatim>\<open>r\<close>.\<close>

definition main_l :: "helpers \<Rightarrow> config \<Rightarrow> Local" where
  "main_l h cfg =
     \<lparr>SocketPath = socket_path cfg,
      RegisterHandler = main_RegisterHandler h cfg,
      DeregisterHandler = main_DeregisterHandler h cfg\<rparr>"

definition main_r :: "config \<Rightarrow> Remote" where
  "main_r cfg =
     \<lparr>URL = mqtt_url cfg, ClientID = mqtt_clientid cfg, Username = mqtt_username cfg,
      Password = mqtt_password cfg, QoS = word_of_int (mqtt_qos cfg),
      TopicRX = mqtt_topic_receive cfg, TopicTX = mqtt_topic_send cfg, client = None\<rparr>"















section \<open>Identifier codec\<close>

text \<open>
  Modelled from the spec: \<^verbatim>\<open>util.EncodeSRv6Endpoint\<close> and \<^verbatim>\<open>util.DecodeSRv6Endpoint\<close> of
  the shared helper library are not among the sources. In the spec's words: Encode
  interprets the two texts as lowercase hex strings, forms the 128-bit address
  \<open>basePrefix || zeros || vpc(48) || attach(16)\<close>, fails with \<open>InvalidIdentifier\<close> when the
  hex is malformed or exceeds width and with \<open>InvalidBasePrefix\<close> when the prefix is wider
  than /64; Decode extracts the lower 64 bits regardless of the base prefix and renders
  them as 12 and 4 hex nibbles.
\<close>

datatype codec_error = InvalidIdentifier | InvalidBasePrefix

definition hex_digits :: string where
  "hex_digits = ''0123456789abcdef''"

definition is_hex :: "char \<Rightarrow> bool" where
  "is_hex c = (c \<in> set hex_digits)"

definition hex_value :: "char \<Rightarrow> nat" where
  "hex_value c = length (takeWhile (\<lambda>d. d \<noteq> c) hex_digits)"

definition hex_digit :: "nat \<Rightarrow> char" where
  "hex_digit n = hex_digits ! (n mod 16)"

definition parse_hex :: "string \<Rightarrow> nat" where
  "parse_hex s = foldl (\<lambda>acc c. acc * 16 + hex_value c) 0 s"

fun to_hex :: "nat \<Rightarrow> nat \<Rightarrow> string" where
  "to_hex 0 n = []"
| "to_hex (Suc k) n = to_hex k (n div 16) @ [hex_digit n]"

definition valid_hex :: "nat \<Rightarrow> string \<Rightarrow> bool" where
  "valid_hex k s = (s \<noteq> [] \<and> list_all is_hex s \<and> parse_hex s < 16 ^ k)"

record BasePrefix =
  Addr :: "128 word"
  PrefixLen :: nat

definition prefix_bits :: "BasePrefix \<Rightarrow> 128 word" where
  "prefix_bits b = push_bit (128 - PrefixLen b) (drop_bit (128 - PrefixLen b) (Addr b))"

definition EncodeSRv6Endpoint :: "BasePrefix \<Rightarrow> string \<Rightarrow> string \<Rightarrow> codec_error + 128 word" where
  "EncodeSRv6Endpoint b vpcText attachText =
     (if \<not> valid_hex 12 vpcText \<or> \<not> valid_hex 4 attachText then Inl InvalidIdentifier
      else if PrefixLen b > 64 then Inl InvalidBasePrefix
      else Inr (prefix_bits b
                OR push_bit 16 (word_of_nat (parse_hex vpcText))
                OR word_of_nat (parse_hex attachText)))"

definition DecodeSRv6Endpoint :: "128 word \<Rightarrow> string \<times> string" where
  "DecodeSRv6Endpoint a =
     (to_hex 12 (unat (take_bit 48 (drop_bit 16 a))), to_hex 4 (unat (take_bit 16 a)))"


section \<open>A concrete host for evaluation\<close>

text \<open>
  One implementation of the helper parameter and one host, used to evaluate the
  definitions at concrete inputs. The parsers know the addresses of the spec's
  scenarios; the device names are \<open>G<vpc>.<attachment>H\<close> and \<open>G<vpc>.<attachment>V\<close>.
\<close>

definition base62_digits :: string where
  "base62_digits = ''0123456789ABCDEFGHIJKLMNOPQRSTUVWXYZabcdefghijklmnopqrstuvwxyz''"

fun to_base62 :: "nat \<Rightarrow> nat \<Rightarrow> string" where
  "to_base62 0 n = []"
| "to_base62 (Suc k) n = to_base62 k (n div 62) @ [base62_digits ! (n mod 62)]"

definition sample_HexToBase62 :: "string \<Rightarrow> error + string" where
  "sample_HexToBase62 s =
     (if s \<noteq> [] \<and> list_all is_hex s
      then (let t = dropWhile (\<lambda>c. c = CHR ''0'') (to_base62 9 (parse_hex s))
            in Inr (if t = [] then ''0'' else t))
      else Inl (OtherError ''invalid hex''))"

definition sample_ParseIP :: "string \<Rightarrow> error + ip" where
  "sample_ParseIP s =
     (case map_of
        [(''fc00::1:1'', IPv6 0xfc000000000000000000000000010001),
         (''fc00:0:3::'', IPv6 0xfc000000000300000000000000000000)] s of
        None \<Rightarrow> Inl (OtherError ''invalid IP address'')
      | Some a \<Rightarrow> Inr a)"

definition sample_ParseIPNet :: "string \<Rightarrow> error + IPNet" where
  "sample_ParseIPNet s =
     (case map_of
        [(''192.168.2.5/32'', \<lparr>IP = IPv4 0xc0a80205, Ones = 32\<rparr>),
         (''192.168.2.0/24'', \<lparr>IP = IPv4 0xc0a80200, Ones = 24\<rparr>)] s of
        None \<Rightarrow> Inl (OtherError ''invalid CIDR address'')
      | Some n \<Rightarrow> Inr n)"

fun sample_ParseSegments :: "string list \<Rightarrow> error + ip list" where
  "sample_ParseSegments [] = Inr []"
| "sample_ParseSegments (s # ss) =
     (case sample_ParseIP s of
        Inl e \<Rightarrow> Inl e
      | Inr a \<Rightarrow> (case sample_ParseSegments ss of Inl e \<Rightarrow> Inl e | Inr as \<Rightarrow> Inr (a # as)))"

definition sample_DecodeEndpoint :: "ip \<Rightarrow> error + string \<times> string" where
  "sample_DecodeEndpoint a =
     (case a of
        IPv4 _ \<Rightarrow> Inl (OtherError ''not an IPv6 address'')
      | IPv6 x \<Rightarrow> Inr (DecodeSRv6Endpoint x))"

definition sample_EncodeEndpoint :: "string \<Rightarrow> string \<Rightarrow> string \<Rightarrow> error + string" where
  "sample_EncodeEndpoint net vpc vpcAttachment =
     (if net = ''fc00::/56'' \<and> vpc = ''1'' \<and> vpcAttachment = ''1''
      then Inr ''fc00::1:1''
      else Inl (OtherError ''invalid identifier''))"

definition sample_Marshal :: "envelope \<Rightarrow> error + payload" where
  "sample_Marshal e =
     (case e of
        Register n ep \<Rightarrow> Inr (''register '' @ n @ '' '' @ ep)
      | Deregister n ep \<Rightarrow> Inr (''deregister '' @ n @ '' '' @ ep))"

definition sample_helpers :: helpers where
  "sample_helpers =
     \<lparr>ParseIP = sample_ParseIP,
      ParseIPNet = sample_ParseIPNet,
      ParseSegments = sample_ParseSegments,
      DecodeEndpoint = sample_DecodeEndpoint,
      HexToBase62 = sample_HexToBase62,
      GenerateInterfaceNameHost = (\<lambda>vpc att. ''G'' @ vpc @ ''.'' @ att @ ''H''),
      GenerateInterfaceNameVRF = (\<lambda>vpc att. ''G'' @ vpc @ ''.'' @ att @ ''V''),
      EncodeEndpoint = sample_EncodeEndpoint,
      Marshal = sample_Marshal\<rparr>"

definition sample_config :: config where
  "sample_config =
     \<lparr>srv6_net = ''fc00::/56'',
      socket_path = ''/var/run/galactic/agent.sock'',
      mqtt_url = ''tcp://mqtt:1883'',
      mqtt_clientid = ''agent'',
      mqtt_username = [],
      mqtt_password = [],
      mqtt_qos = 1,
      mqtt_topic_receive = ''galactic/default/receive'',
      mqtt_topic_send = ''galactic/default/send''\<rparr>"

text \<open>
  A host with the three devices of attachment (1, 1) and empty tables, after
  \<^verbatim>\<open>Remote.Run\<close> has stored the client; and the same host before that.
\<close>

definition sample_world :: world where
  "sample_world =
     \<lparr>links = [(''G1.1H'', \<lparr>Index = 7, VrfTable = None\<rparr>),
               (''G1.1V'', \<lparr>Index = 8, VrfTable = Some 100\<rparr>),
               (''lo-galactic'', \<lparr>Index = 2, VrfTable = None\<rparr>)],
      routes = [],
      neighs = [],
      refuse = (\<lambda>c. None),
      var_r = Run_store_client (main_r sample_config),
      trace = [],
      logged = []\<rparr>"

definition sample_world_before_Run :: world where
  "sample_world_before_Run = sample_world\<lparr>var_r := main_r sample_config\<rparr>"

definition sample_request :: Request where
  "sample_request = \<lparr>GetVpc = ''1'', GetVpcattachment = ''1'', GetNetworks = [''10.1.1.0/24'']\<rparr>"



section \<open>Remote client: session, connect callback, Send\<close>

lemma byte_of_qos:
  "0 \<le> q \<Longrightarrow> q < 256 \<Longrightarrow> ((word_of_int q :: 8 word) = 0) = (q = 0)"
proof -
  assume a: "0 \<le> q" "q < 256"
  have "uint (word_of_int q :: 8 word) = q"
    using a by (simp add: uint_word_of_int take_bit_int_eq_self)
  then show ?thesis by (metis uint_0_eq word_of_int_0)
qed

text \<open>
  C8. For every configuration of the remote client, the session is persistent (the
  clean-session flag is false) exactly when the client identifier is a non-empty string
  and QoS is at least 1; in every other case the session is clean. This holds of the
  fields of \<^verbatim>\<open>Remote\<close>, and of the configuration keys main.go fills them from whenever
  \<^verbatim>\<open>mqtt_qos\<close> fits the byte it is converted to.
\<close>

theorem session_persistent_iff:
  "(\<not> CleanSession (Run_options rm) \<longleftrightarrow> (ClientID rm \<noteq> [] \<and> 1 \<le> QoS rm)) \<and>
   (0 \<le> mqtt_qos cfg \<and> mqtt_qos cfg < 256 \<longrightarrow>
      (\<not> CleanSession (Run_options (main_r cfg)) \<longleftrightarrow>
         (mqtt_clientid cfg \<noteq> [] \<and> 1 \<le> mqtt_qos cfg)))"
proof -
  have 1: "\<not> CleanSession (Run_options r') \<longleftrightarrow> (ClientID r' \<noteq> [] \<and> 1 \<le> QoS r')" for r'
    by (simp add: Run_options_def Let_def word_le_nat_alt Suc_le_eq unat_gt_0)
  have 2: "\<not> CleanSession (Run_options (main_r cfg)) \<longleftrightarrow>
             (mqtt_clientid cfg \<noteq> [] \<and> 1 \<le> mqtt_qos cfg)"
    if "0 \<le> mqtt_qos cfg" "mqtt_qos cfg < 256"
    using byte_of_qos [OF that] that
    by (auto simp add: Run_options_def Let_def main_r_def)
  from 1 2 show ?thesis by blast
qed

theorem session_persistent_iff_witness:
  "\<not> CleanSession (Run_options (main_r sample_config))
   \<and> CleanSession (Run_options (main_r (sample_config\<lparr>mqtt_qos := 0\<rparr>)))
   \<and> CleanSession (Run_options (main_r (sample_config\<lparr>mqtt_clientid := []\<rparr>)))"
  using session_persistent_iff [of "main_r sample_config" sample_config]
    session_persistent_iff [of "main_r sample_config" "sample_config\<lparr>mqtt_qos := 0\<rparr>"]
    session_persistent_iff [of "main_r sample_config" "sample_config\<lparr>mqtt_clientid := []\<rparr>"]
  by (simp add: sample_config_def)

text \<open>
  C9, as the spec states it: after a failed subscribe the client disconnects and
  retries. On a host that has just connected, a subscribe that times out leaves exactly
  the connect and the subscribe request behind: no disconnect, no second connect.
\<close>

theorem subscribe_failure_counterexample:
  "trace (OnConnect (main_r sample_config) (Token False None) (emit MqttConnect sample_world))
   = [MqttConnect, MqttSubscribe ''galactic/default/receive'' 1]"
  by (simp add: OnConnect_def main_r_def emit_def log_Printf_def Let_def
      sample_config_def sample_world_def)

text \<open>
  C9, amended. Whenever the subscribe to the receive topic fails (timeout or error),
  the connect callback has issued the subscribe request and nothing else to the broker
  client, logs the subscribe error after the connect line and returns; the stored
  client is unchanged.
\<close>

theorem subscribe_failure_logs_and_returns:
  "\<not> WaitTimeout tok \<or> Error tok \<noteq> None \<Longrightarrow>
   trace (OnConnect rm tok w) = trace w @ [MqttSubscribe (TopicRX rm) (QoS rm)] \<and>
   logged (OnConnect rm tok w) =
     logged w @ [LogText ''MQTT connected'', LogError ''MQTT subscribe error: %v'' (Error tok)] \<and>
   var_r (OnConnect rm tok w) = var_r w"
  by (auto simp add: OnConnect_def emit_def log_Printf_def Let_def)

theorem subscribe_failure_logs_and_returns_witness:
  "Error (Token True (Some (OtherError ''not authorized''))) = Some (OtherError ''not authorized'') \<and>
   trace (OnConnect (main_r sample_config) (Token True (Some (OtherError ''not authorized''))) sample_world)
     = [MqttSubscribe ''galactic/default/receive'' 1]"
  using subscribe_failure_logs_and_returns
    [of "Token True (Some (OtherError ''not authorized''))" "main_r sample_config" sample_world]
  by (simp add: main_r_def sample_config_def sample_world_def)

text \<open>
  C10. The value main.go assigns to \<^verbatim>\<open>r\<close> has a nil client, and as long as
  \<^verbatim>\<open>Remote.Run\<close> has not stored the client, \<^verbatim>\<open>Remote.Send\<close> calls \<^verbatim>\<open>Publish\<close> on the nil
  value and panics; nothing is handed to the broker.
\<close>

theorem Send_before_Run_panics:
  "client (main_r cfg) = None \<and>
   (client (var_r w) = None \<longrightarrow> Send p w = (Panics, w))"
  by (simp add: Send_def main_r_def)

lemma sample_register_before_Run:
  "fst (Local_Register (main_l sample_helpers sample_config) sample_request sample_world_before_Run)
     = Panics"
  by code_simp

theorem Send_before_Run_panics_witness:
  "client (var_r sample_world_before_Run) = None \<and>
   Send ''register 10.1.1.0/24 fc00::1:1'' sample_world_before_Run = (Panics, sample_world_before_Run) \<and>
   fst (Local_Register (main_l sample_helpers sample_config) sample_request sample_world_before_Run)
     = Panics"
  using Send_before_Run_panics [of sample_config sample_world_before_Run "''register 10.1.1.0/24 fc00::1:1''"]
    sample_register_before_Run
  by (simp add: sample_world_before_Run_def)


section \<open>Local service: replies and errors\<close>

text \<open>
  C4, as the spec states it: a failing step yields a reply message with confirmed =
  false, and the framework's error channel is not used. A Register request whose
  identifier the encoder rejects gets no reply message; the encoder's error goes to the
  framework.
\<close>

theorem handler_failure_counterexample:
  "fst (Local_Register (main_l sample_helpers sample_config)
         \<lparr>GetVpc = ''zz'', GetVpcattachment = ''1'', GetNetworks = [''10.1.1.0/24'']\<rparr> sample_world)
   = Returns (None, Some (OtherError ''invalid identifier''))"
  by (simp add: Local_Register_def main_l_def main_RegisterHandler_def sample_helpers_def
      sample_EncodeEndpoint_def sample_config_def)

text \<open>
  C4, amended. For every Register or Deregister request whose handler returns an error
  (from the encoder, the kernel programmer or marshalling), the method returns no reply
  message and hands that error to the RPC framework; a reply message is produced only
  when the handler succeeded, and then confirmed is true.
\<close>
theorem handler_failure_on_error_channel:
  "(RegisterHandler l (GetVpc req) (GetVpcattachment req) (GetNetworks req) w = (Returns (Some e), w')
      \<longrightarrow> Local_Register l req w = (Returns (None, Some e), w')) \<and>
   (DeregisterHandler l (GetVpc req) (GetVpcattachment req) (GetNetworks req) w = (Returns (Some e), w')
      \<longrightarrow> Local_Deregister l req w = (Returns (None, Some e), w')) \<and>
   (Local_Register l req w = (Returns (Some rep, x), w'') \<longrightarrow> Confirmed rep \<and> x = None) \<and>
   (Local_Deregister l req w = (Returns (Some rep, x), w'') \<longrightarrow> Confirmed rep \<and> x = None)"
  by (auto simp add: Local_Register_def Local_Deregister_def split: prod.splits outcome.splits option.splits)

lemma sample_bad_request_handlers:
  "RegisterHandler (main_l sample_helpers sample_config) ''zz'' ''1'' [''10.1.1.0/24''] sample_world
     = (Returns (Some (OtherError ''invalid identifier'')), sample_world)"
  "DeregisterHandler (main_l sample_helpers sample_config) ''zz'' ''1'' [''10.1.1.0/24''] sample_world
     = (Returns (Some (OtherError ''invalid identifier'')), sample_world)"
  by (simp_all add: main_l_def main_RegisterHandler_def main_DeregisterHandler_def sample_helpers_def
      sample_EncodeEndpoint_def sample_config_def)

lemma sample_register_reply:
  "fst (Local_Register (main_l sample_helpers sample_config) sample_request sample_world)
     = Returns (Some \<lparr>Confirmed = True\<rparr>, None)"
  by code_simp

theorem handler_failure_on_error_channel_witness:
  "Local_Register (main_l sample_helpers sample_config)
      \<lparr>GetVpc = ''zz'', GetVpcattachment = ''1'', GetNetworks = [''10.1.1.0/24'']\<rparr> sample_world
     = (Returns (None, Some (OtherError ''invalid identifier'')), sample_world) \<and>
   Local_Deregister (main_l sample_helpers sample_config)
      \<lparr>GetVpc = ''zz'', GetVpcattachment = ''1'', GetNetworks = [''10.1.1.0/24'']\<rparr> sample_world
     = (Returns (None, Some (OtherError ''invalid identifier'')), sample_world) \<and>
   fst (Local_Register (main_l sample_helpers sample_config) sample_request sample_world)
     = Returns (Some \<lparr>Confirmed = True\<rparr>, None) \<and>
   Confirmed \<lparr>Confirmed = True\<rparr>"
  using handler_failure_on_error_channel
      [of "main_l sample_helpers sample_config"
          "\<lparr>GetVpc = ''zz'', GetVpcattachment = ''1'', GetNetworks = [''10.1.1.0/24'']\<rparr>"
          sample_world "OtherError ''invalid identifier''" sample_world]
    handler_failure_on_error_channel
      [of "main_l sample_helpers sample_config" sample_request sample_world _ _
          "\<lparr>Confirmed = True\<rparr>" None
          "snd (Local_Register (main_l sample_helpers sample_config) sample_request sample_world)"]
    sample_bad_request_handlers sample_register_reply
  by simp


section \<open>Process exit status\<close>




section \<open>Kernel programmer: facts about the requests\<close>

lemma emit_fields:
  "routes (emit e w) = routes w" "neighs (emit e w) = neighs w" "links (emit e w) = links w"
  "refuse (emit e w) = refuse w" "var_r (emit e w) = var_r w" "logged (emit e w) = logged w"
  "trace (emit e w) = trace w @ [e]"
  by (simp_all add: emit_def)



lemma RouteReplace_effect:
  "RouteReplace rt w = (r, w') \<Longrightarrow>
   trace w' = trace w @ [Netlink (CallRouteReplace rt)] \<and> neighs w' = neighs w \<and>
   links w' = links w \<and> var_r w' = var_r w \<and> refuse w' = refuse w \<and> logged w' = logged w \<and>
   (r = None \<longrightarrow> rt \<in> set (routes w'))"
  by (auto simp add: RouteReplace_def Let_def emit_fields split: option.splits)

lemma NeighAdd_effect:
  "NeighAdd n w = (r, w') \<Longrightarrow>
   trace w' = trace w @ [Netlink (CallNeighAdd n)] \<and> routes w' = routes w \<and>
   links w' = links w \<and> var_r w' = var_r w \<and> refuse w' = refuse w \<and> logged w' = logged w \<and>
   (refuse w (CallNeighAdd n) = None \<longrightarrow> n \<in> set (neighs w'))"
proof -
  have same: "x = n" if "neigh_matches n x" for x
    using that by (cases x, cases n) (simp add: neigh_matches_def, metis (full_types) neigh_state.exhaust neigh_flag.exhaust)
  assume "NeighAdd n w = (r, w')"
  then show ?thesis
    by (auto simp add: NeighAdd_def Let_def list_ex_iff emit_fields split: option.splits if_splits dest: same)
qed

lemma routeegress_Add_effect:
  "routeegress_Add h vpc att pfx segs w = (r, w') \<Longrightarrow>
   neighs w' = neighs w \<and> links w' = links w \<and> var_r w' = var_r w \<and> refuse w' = refuse w \<and>
   (trace w' = trace w \<or> (\<exists>rt. trace w' = trace w @ [Netlink (CallRouteReplace rt)]))"
  by (auto simp add: routeegress_Add_def split: sum.splits dest!: RouteReplace_effect)

lemma neighborproxy_Add_effect:
  "LinkByName (GenerateInterfaceNameHost h vpc att) w = Inr lk \<Longrightarrow>
   neighborproxy_Add h pfx vpc att w = (r, w') \<Longrightarrow>
   trace w' = trace w @ [Netlink (CallNeighAdd \<lparr>NeighLinkIndex = Index lk, NeighIP = IP pfx,
                    State = NUD_PERMANENT, Flags = NTF_PROXY\<rparr>)] \<and>
   (refuse w (CallNeighAdd \<lparr>NeighLinkIndex = Index lk, NeighIP = IP pfx,
                    State = NUD_PERMANENT, Flags = NTF_PROXY\<rparr>) = None \<longrightarrow>
     \<lparr>NeighLinkIndex = Index lk, NeighIP = IP pfx, State = NUD_PERMANENT, Flags = NTF_PROXY\<rparr>
        \<in> set (neighs w'))"
  by (auto simp add: neighborproxy_Add_def Let_def dest!: NeighAdd_effect)

lemma RouteEgressAdd_parsed:
  assumes "ParseIPNet h prefixStr = Inr pfx" "ParseIP h srcStr = Inr src"
    "ParseSegments h segmentsStr = Inr segments" "DecodeEndpoint h src = Inr (vpcHex, attHex)"
    "HexToBase62 h vpcHex = Inr vpc" "HexToBase62 h attHex = Inr att"
  shows "RouteEgressAdd h prefixStr srcStr segmentsStr w = egress_add_ops h pfx segments vpc att w"
  using assms by (simp add: RouteEgressAdd_def)

lemma RouteEgressDel_parsed:
  assumes "ParseIPNet h prefixStr = Inr pfx" "ParseIP h srcStr = Inr src"
    "ParseSegments h segmentsStr = Inr segments" "DecodeEndpoint h src = Inr (vpcHex, attHex)"
    "HexToBase62 h vpcHex = Inr vpc" "HexToBase62 h attHex = Inr att"
  shows "RouteEgressDel h prefixStr srcStr segmentsStr w = egress_del_ops h pfx segments vpc att w"
  using assms by (simp add: RouteEgressDel_def)

lemma sample_decode:
  "DecodeEndpoint sample_helpers (IPv6 0xfc000000000000000000000000010001) = Inr (''000000000001'', ''0001'')"
  by code_simp

lemma sample_base62:
  "HexToBase62 sample_helpers ''000000000001'' = Inr ''1''"
  "HexToBase62 sample_helpers ''0001'' = Inr ''1''"
  by code_simp+

lemma sample_parse:
  "ParseIPNet sample_helpers ''192.168.2.5/32'' = Inr \<lparr>IP = IPv4 0xc0a80205, Ones = 32\<rparr>"
  "ParseIPNet sample_helpers ''192.168.2.0/24'' = Inr \<lparr>IP = IPv4 0xc0a80200, Ones = 24\<rparr>"
  "ParseIP sample_helpers ''fc00::1:1'' = Inr (IPv6 0xfc000000000000000000000000010001)"
  "ParseSegments sample_helpers [''fc00:0:3::''] = Inr [IPv6 0xfc000000000300000000000000000000]"
  by (simp_all add: sample_helpers_def sample_ParseIPNet_def sample_ParseIP_def)

lemma sample_host_device:
  "LinkByName (GenerateInterfaceNameHost sample_helpers ''1'' ''1'') sample_world = Inr \<lparr>Index = 7, VrfTable = None\<rparr>"
  by (simp add: sample_helpers_def sample_world_def LinkByName_def)

section \<open>Deleting entries that are not there\<close>




section \<open>Egress install: the host-prefix rule and partial failure\<close>

text \<open>
  C6. For every EgressAdd whose inputs parse, on a host where the per-attachment host
  device exists and the kernel does not refuse the neighbour request: the request for a
  proxy-neighbour entry (state permanent, flag proxy) for the prefix's address on the
  host device is issued if and only if the prefix is a host prefix, and no other
  neighbour request is issued; for a host prefix the entry is in the neighbour table
  afterwards, for any shorter prefix the neighbour table is unchanged.
\<close>

theorem proxy_neighbor_iff_host_prefix:
  assumes "ParseIPNet h prefixStr = Inr pfx" "ParseIP h srcStr = Inr src"
    "ParseSegments h segmentsStr = Inr segments" "DecodeEndpoint h src = Inr (vpcHex, attHex)"
    "HexToBase62 h vpcHex = Inr vpc" "HexToBase62 h attHex = Inr att"
    and dev: "LinkByName (GenerateInterfaceNameHost h vpc att) w = Inr lk"
    and ok: "refuse w (CallNeighAdd \<lparr>NeighLinkIndex = Index lk, NeighIP = IP pfx,
                    State = NUD_PERMANENT, Flags = NTF_PROXY\<rparr>) = None"
    and run: "RouteEgressAdd h prefixStr srcStr segmentsStr w = (r, w')"
  shows "(Netlink (CallNeighAdd \<lparr>NeighLinkIndex = Index lk, NeighIP = IP pfx,
                    State = NUD_PERMANENT, Flags = NTF_PROXY\<rparr>)
            \<in> set (drop (length (trace w)) (trace w')) \<longleftrightarrow> IsHost pfx) \<and>
         (\<forall>n. Netlink (CallNeighAdd n) \<in> set (drop (length (trace w)) (trace w')) \<longrightarrow>
            n = \<lparr>NeighLinkIndex = Index lk, NeighIP = IP pfx, State = NUD_PERMANENT, Flags = NTF_PROXY\<rparr>) \<and>
         (IsHost pfx \<longrightarrow>
            \<lparr>NeighLinkIndex = Index lk, NeighIP = IP pfx, State = NUD_PERMANENT, Flags = NTF_PROXY\<rparr>
              \<in> set (neighs w')) \<and>
         (\<not> IsHost pfx \<longrightarrow> neighs w' = neighs w)"
proof -
  let ?n = "\<lparr>NeighLinkIndex = Index lk, NeighIP = IP pfx, State = NUD_PERMANENT, Flags = NTF_PROXY\<rparr>"
  have ops: "egress_add_ops h pfx segments vpc att w = (r, w')"
    using RouteEgressAdd_parsed [OF assms(1-6)] run by simp
  show ?thesis
  proof (cases "IsHost pfx")
    case True
    obtain r1 w1 where n1: "neighborproxy_Add h pfx vpc att w = (r1, w1)" by fastforce
    obtain r2 w2 where e2: "routeegress_Add h vpc att pfx segments w1 = (r2, w2)" by fastforce
    have w2: "w' = w2" using ops True n1 e2 by (simp add: egress_add_ops_def)
    note a = neighborproxy_Add_effect [OF dev n1]
    note b = routeegress_Add_effect [OF e2]
    from a b ok True show ?thesis unfolding w2 by auto
  next
    case False
    obtain r2 w2 where e2: "routeegress_Add h vpc att pfx segments w = (r2, w2)" by fastforce
    have w2: "w' = w2" using ops False e2 by (simp add: egress_add_ops_def)
    note b = routeegress_Add_effect [OF e2]
    from b False show ?thesis unfolding w2 by auto
  qed
qed

theorem proxy_neighbor_iff_host_prefix_witness:
  "IsHost \<lparr>IP = IPv4 0xc0a80205, Ones = 32\<rparr> \<and>
   \<lparr>NeighLinkIndex = 7, NeighIP = IPv4 0xc0a80205, State = NUD_PERMANENT, Flags = NTF_PROXY\<rparr>
     \<in> set (neighs (snd (RouteEgressAdd sample_helpers ''192.168.2.5/32'' ''fc00::1:1'' [''fc00:0:3::''] sample_world))) \<and>
   \<not> IsHost \<lparr>IP = IPv4 0xc0a80200, Ones = 24\<rparr> \<and>
   neighs (snd (RouteEgressAdd sample_helpers ''192.168.2.0/24'' ''fc00::1:1'' [''fc00:0:3::''] sample_world)) = []"
proof -
  have r: "refuse sample_world c = None" for c by (simp add: sample_world_def)
  have n: "neighs sample_world = []" by (simp add: sample_world_def)
  have h: "IsHost \<lparr>IP = IPv4 0xc0a80205, Ones = 32\<rparr>" "\<not> IsHost \<lparr>IP = IPv4 0xc0a80200, Ones = 24\<rparr>"
    by (simp_all add: IsHost_def ip_bits_def)
  show ?thesis
    using proxy_neighbor_iff_host_prefix
        [OF sample_parse(1) sample_parse(3) sample_parse(4) sample_decode sample_base62 sample_host_device r surjective_pairing]
      proxy_neighbor_iff_host_prefix
        [OF sample_parse(2) sample_parse(3) sample_parse(4) sample_decode sample_base62 sample_host_device r surjective_pairing]
      h n
    by simp
qed

text \<open>
  C7. For every EgressAdd and EgressDelete on a host prefix whose inputs parse, the
  neighbour-proxy operation runs first and the route operation runs on the state it
  leaves, whether or not it failed; the result is nil when both succeeded and otherwise
  the join of the wrapped errors of the operations that failed, in that order.
\<close>

theorem egress_errors_joined:
  assumes "ParseIPNet h prefixStr = Inr pfx" "ParseIP h srcStr = Inr src"
    "ParseSegments h segmentsStr = Inr segments" "DecodeEndpoint h src = Inr (vpcHex, attHex)"
    "HexToBase62 h vpcHex = Inr vpc" "HexToBase62 h attHex = Inr att"
    and host: "IsHost pfx"
    and "neighborproxy_Add h pfx vpc att w = (a1, wa1)"
        "routeegress_Add h vpc att pfx segments wa1 = (a2, wa2)"
        "neighborproxy_Delete h pfx vpc att w = (d1, wd1)"
        "routeegress_Delete h vpc att pfx segments wd1 = (d2, wd2)"
  shows "RouteEgressAdd h prefixStr srcStr segmentsStr w =
           (case (a1, a2) of
              (None, None) \<Rightarrow> None
            | (Some e1, None) \<Rightarrow> Some (JoinError [Errorf ''neighborproxy add failed'' e1])
            | (None, Some e2) \<Rightarrow> Some (JoinError [Errorf ''routeegress add failed'' e2])
            | (Some e1, Some e2) \<Rightarrow>
                Some (JoinError [Errorf ''neighborproxy add failed'' e1,
                                 Errorf ''routeegress add failed'' e2]),
            wa2) \<and>
         RouteEgressDel h prefixStr srcStr segmentsStr w =
           (case (d1, d2) of
              (None, None) \<Rightarrow> None
            | (Some e1, None) \<Rightarrow> Some (JoinError [Errorf ''neighborproxy delete failed'' e1])
            | (None, Some e2) \<Rightarrow> Some (JoinError [Errorf ''routeegress delete failed'' e2])
            | (Some e1, Some e2) \<Rightarrow>
                Some (JoinError [Errorf ''neighborproxy delete failed'' e1,
                                 Errorf ''routeegress delete failed'' e2]),
            wd2)"
  using assms(7-)
  unfolding RouteEgressAdd_parsed [OF assms(1-6)] RouteEgressDel_parsed [OF assms(1-6)]
  by (simp add: egress_add_ops_def egress_del_ops_def append_failure_def join_result_def
      split: option.splits)

theorem egress_errors_joined_witness:
  "IsHost \<lparr>IP = IPv4 0xc0a80205, Ones = 32\<rparr> \<and>
   fst (RouteEgressAdd sample_helpers ''192.168.2.5/32'' ''fc00::1:1'' [''fc00:0:3::'']
          (sample_world\<lparr>links := tl (links sample_world)\<rparr>))
     = Some (JoinError [Errorf ''neighborproxy add failed'' (LinkNotFoundError ''G1.1H'')]) \<and>
   map Dst (routes (snd (RouteEgressAdd sample_helpers ''192.168.2.5/32'' ''fc00::1:1'' [''fc00:0:3::'']
          (sample_world\<lparr>links := tl (links sample_world)\<rparr>))))
     = [\<lparr>IP = IPv4 0xc0a80205, Ones = 32\<rparr>] \<and>
   fst (RouteEgressDel sample_helpers ''192.168.2.5/32'' ''fc00::1:1'' [''fc00:0:3::'']
          (sample_world\<lparr>links := tl (links sample_world)\<rparr>))
     = Some (JoinError [Errorf ''neighborproxy delete failed'' (LinkNotFoundError ''G1.1H''),
                        Errorf ''routeegress delete failed'' (Errno ESRCH)])"
proof -
  let ?w = "sample_world\<lparr>links := tl (links sample_world)\<rparr>"
  let ?p = "\<lparr>IP = IPv4 0xc0a80205, Ones = 32\<rparr>"
  let ?s = "[IPv6 0xfc000000000300000000000000000000]"
  have h: "IsHost ?p" by (simp add: IsHost_def ip_bits_def)
  have a1: "neighborproxy_Add sample_helpers ?p ''1'' ''1'' ?w = (Some (LinkNotFoundError ''G1.1H''), ?w)"
    by (simp add: neighborproxy_Add_def sample_helpers_def sample_world_def LinkByName_def)
  have d1: "neighborproxy_Delete sample_helpers ?p ''1'' ''1'' ?w = (Some (LinkNotFoundError ''G1.1H''), ?w)"
    by (simp add: neighborproxy_Delete_def sample_helpers_def sample_world_def LinkByName_def)
  have a2: "fst (routeegress_Add sample_helpers ''1'' ''1'' ?p ?s ?w) = None"
    "map Dst (routes (snd (routeegress_Add sample_helpers ''1'' ''1'' ?p ?s ?w))) = [?p]"
    by (simp_all add: routeegress_Add_def sample_helpers_def sample_world_def LinkByName_def
        GetVRFIdForVPC_def LoopbackDevice_def RouteReplace_def Let_def emit_def)
  have d2: "fst (routeegress_Delete sample_helpers ''1'' ''1'' ?p ?s ?w) = Some (Errno ESRCH)"
    by (simp add: routeegress_Delete_def sample_helpers_def sample_world_def LinkByName_def
        GetVRFIdForVPC_def LoopbackDevice_def RouteDel_def Let_def emit_def)
  show ?thesis
    using egress_errors_joined
        [OF sample_parse(1) sample_parse(3) sample_parse(4) sample_decode sample_base62 h a1
            surjective_pairing d1 surjective_pairing]
      h a2 d2
    by simp
qed

section \<open>Register: order of effects\<close>









section \<open>Identifier codec: round trip\<close>

lemma is_hex_cases:
  assumes "is_hex c"
  shows "hex_value c < 16 \<and> hex_digit (hex_value c) = c"
proof -
  have len: "length hex_digits = 16" by (simp add: hex_digits_def)
  have "takeWhile (\<lambda>d. d \<noteq> c) hex_digits \<noteq> hex_digits"
    using assms unfolding is_hex_def takeWhile_eq_all_conv by blast
  then have "length (takeWhile (\<lambda>d. d \<noteq> c) hex_digits) \<noteq> length hex_digits"
    by (metis takeWhile_eq_take take_all order_refl)
  with length_takeWhile_le [of "\<lambda>d. d \<noteq> c" hex_digits]
  have lt: "hex_value c < length hex_digits" unfolding hex_value_def by linarith
  from nth_length_takeWhile [of "\<lambda>d. d \<noteq> c" hex_digits] lt
  have "hex_digits ! hex_value c = c" unfolding hex_value_def by blast
  with lt len show ?thesis by (simp add: hex_digit_def)
qed

lemma parse_hex_snoc: "parse_hex (s @ [c]) = parse_hex s * 16 + hex_value c"
  by (simp add: parse_hex_def)

lemma parse_hex_bound: "list_all is_hex s \<Longrightarrow> parse_hex s < 16 ^ length s"
proof (induction s rule: rev_induct)
  case Nil
  then show ?case by (simp add: parse_hex_def)
next
  case (snoc c s)
  then have a: "parse_hex s < 16 ^ length s" and b: "hex_value c < 16"
    by (simp_all add: is_hex_cases)
  from a have "parse_hex s + 1 \<le> 16 ^ length s" by simp
  then have "(parse_hex s + 1) * 16 \<le> 16 ^ length s * 16" by (rule mult_le_mono1)
  with b have "parse_hex s * 16 + hex_value c < 16 ^ length s * 16" by simp
  then show ?case by (simp add: parse_hex_snoc mult.commute)
qed

lemma to_hex_parse_hex: "list_all is_hex s \<Longrightarrow> to_hex (length s) (parse_hex s) = s"
proof (induction s rule: rev_induct)
  case Nil
  then show ?case by simp
next
  case (snoc c s)
  then have v: "hex_value c < 16" "hex_digit (hex_value c) = c" and ih: "to_hex (length s) (parse_hex s) = s"
    by (simp_all add: is_hex_cases)
  have d: "hex_digit (parse_hex s * 16 + hex_value c) = hex_digit (hex_value c)"
    by (simp add: hex_digit_def)
  from v ih d show ?case by (simp add: parse_hex_snoc)
qed

lemma low_bits_of_endpoint:
  fixes P V T :: "128 word"
  assumes P: "take_bit 64 P = 0" and V: "take_bit 48 V = V" and T: "take_bit 16 T = T"
  shows "take_bit 48 (drop_bit 16 (P OR push_bit 16 V OR T)) = V"
    and "take_bit 16 (P OR push_bit 16 V OR T) = T"
proof -
  have P16: "take_bit 16 P = 0"
  proof -
    have "take_bit 16 P = take_bit 16 (take_bit 64 P)" by simp
    then show ?thesis by (simp only: P take_bit_of_0)
  qed
  have T64: "take_bit 64 T = T"
  proof -
    have "take_bit 64 (take_bit 16 T) = take_bit 16 T" by simp
    then show ?thesis by (simp only: T)
  qed
  have T0: "drop_bit 16 T = 0"
  proof -
    have "drop_bit 16 (take_bit 16 T) = 0" by (simp add: drop_bit_take_bit)
    then show ?thesis by (simp only: T)
  qed
  have dp: "drop_bit 16 (push_bit 16 V) = V"
  proof (rule bit_word_eqI)
    fix n
    assume "n < LENGTH(128)"
    have "bit V n \<Longrightarrow> n < 48" using V by (metis bit_take_bit_iff)
    then show "bit (drop_bit 16 (push_bit 16 V)) n = bit V n"
      by (auto simp add: bit_simps)
  qed
  have e64: "take_bit 64 (P OR push_bit 16 V OR T) = push_bit 16 V OR T"
    by (simp add: take_bit_push_bit P V T64)
  have "take_bit 48 (drop_bit 16 (P OR push_bit 16 V OR T))
          = drop_bit 16 (take_bit (48 + 16) (P OR push_bit 16 V OR T))"
    by (rule take_bit_drop_bit)
  also have "\<dots> = drop_bit 16 (push_bit 16 V OR T)"
    using e64 by simp
  also have "\<dots> = V" by (simp add: dp T0)
  finally show "take_bit 48 (drop_bit 16 (P OR push_bit 16 V OR T)) = V" .
  show "take_bit 16 (P OR push_bit 16 V OR T) = T"
    by (simp add: take_bit_push_bit P16 T)
qed

lemma prefix_bits_low: "PrefixLen b \<le> 64 \<Longrightarrow> take_bit 64 (prefix_bits b) = 0"
  by (simp add: prefix_bits_def take_bit_push_bit)

lemma word_of_hex:
  assumes "n < 2 ^ k" "k \<le> 128"
  shows "take_bit k (word_of_nat n :: 128 word) = word_of_nat n" "unat (word_of_nat n :: 128 word) = n"
proof -
  have "take_bit k n = n" using assms(1) by (simp add: take_bit_nat_eq_self)
  then show "take_bit k (word_of_nat n :: 128 word) = word_of_nat n"
    by (simp add: take_bit_of_nat)
  have "n < 2 ^ 128"
    using assms by (meson less_le_trans one_le_numeral power_increasing)
  then show "unat (word_of_nat n :: 128 word) = n" by (simp add: unat_of_nat)
qed

text \<open>
  C1. For every base prefix of length at most 64, every 12-nibble lowercase hex VPC
  string and every 4-nibble lowercase hex attachment string, encoding succeeds and
  decoding the encoded address returns exactly the two strings, leading zeros included.
\<close>

theorem codec_round_trip:
  assumes len: "PrefixLen b \<le> 64"
    and vpc: "length vpcHex = 12" "list_all is_hex vpcHex"
    and att: "length attachHex = 4" "list_all is_hex attachHex"
  shows "\<exists>a. EncodeSRv6Endpoint b vpcHex attachHex = Inr a \<and>
             DecodeSRv6Endpoint a = (vpcHex, attachHex)"
proof -
  let ?v = "parse_hex vpcHex" and ?t = "parse_hex attachHex"
  let ?a = "prefix_bits b OR push_bit 16 (word_of_nat ?v) OR word_of_nat ?t"
  have bv: "?v < 16 ^ 12" using parse_hex_bound [OF vpc(2)] vpc(1) by simp
  have bt: "?t < 16 ^ 4" using parse_hex_bound [OF att(2)] att(1) by simp
  have bv2: "?v < 2 ^ 48" using bv by simp
  have bt2: "?t < 2 ^ 16" using bt by simp
  have ne: "vpcHex \<noteq> []" "attachHex \<noteq> []" using vpc(1) att(1) by auto
  have enc: "EncodeSRv6Endpoint b vpcHex attachHex = Inr ?a"
    using len vpc(2) att(2) bv bt ne by (simp add: EncodeSRv6Endpoint_def valid_hex_def)
  have wv: "take_bit 48 (word_of_nat ?v :: 128 word) = word_of_nat ?v"
    "unat (word_of_nat ?v :: 128 word) = ?v"
    using word_of_hex [OF bv2] by simp_all
  have wt: "take_bit 16 (word_of_nat ?t :: 128 word) = word_of_nat ?t"
    "unat (word_of_nat ?t :: 128 word) = ?t"
    using word_of_hex [OF bt2] by simp_all
  note low = low_bits_of_endpoint [OF prefix_bits_low [OF len] wv(1) wt(1)]
  have "DecodeSRv6Endpoint ?a = (to_hex 12 ?v, to_hex 4 ?t)"
    by (simp only: DecodeSRv6Endpoint_def low wv(2) wt(2))
  also have "\<dots> = (vpcHex, attachHex)"
    using to_hex_parse_hex [OF vpc(2)] to_hex_parse_hex [OF att(2)] vpc(1) att(1) by simp
  finally show ?thesis using enc by blast
qed

theorem codec_round_trip_witness:
  "map_sum id DecodeSRv6Endpoint
     (EncodeSRv6Endpoint \<lparr>Addr = 0xfc000000000000000000000000000000, PrefixLen = 48\<rparr>
        ''ffffffffffff'' ''ffff'')
   = Inr (''ffffffffffff'', ''ffff'')"
proof -
  have h: "list_all is_hex ''ffffffffffff''" "list_all is_hex ''ffff''"
    by (simp_all add: is_hex_def hex_digits_def)
  from codec_round_trip [of "\<lparr>Addr = 0xfc000000000000000000000000000000, PrefixLen = 48\<rparr>"
      "''ffffffffffff''" "''ffff''"] h
  obtain a where "EncodeSRv6Endpoint \<lparr>Addr = 0xfc000000000000000000000000000000, PrefixLen = 48\<rparr>
        ''ffffffffffff'' ''ffff'' = Inr a" "DecodeSRv6Endpoint a = (''ffffffffffff'', ''ffff'')"
    by auto
  then show ?thesis by simp
qed

end
